theory Spec2Isabelle
  imports Complex_Main
begin

section \<open>MODIS land cover of Maranhao: yearly analysis and export\<close>

text \<open>
  The program is one Earth Engine script, \<^verbatim>\<open>005_ExportModisMoranhao.js\<close>. Its two
  functions, \<^verbatim>\<open>analyzeLandCover\<close> and \<^verbatim>\<open>exportYear\<close>, are embedded below together with
  the Earth Engine operations they call. Every client call of the script only builds a
  request: nothing is raised on the client, and a request that cannot be evaluated shows
  as an error where its value is printed, or in the export task that holds it. A value of
  the script is therefore a result: \<open>Inl\<close> an error, \<open>Inr\<close> the value.
\<close>

subsection \<open>Numbers in string concatenation\<close>

text \<open>
  \<^verbatim>\<open>'Year ' + year\<close> and \<^verbatim>\<open>'MCD12Q1_Maranhao_' + year\<close> append the decimal form of
  the number. A year is an integer; JavaScript writes an integer below \<open>10^21\<close> in plain
  decimal digits, with a leading minus sign when it is negative.
\<close>

definition digit_char :: "nat \<Rightarrow> char" where
  "digit_char n = ''0123456789'' ! n"

fun string_of_nat :: "nat \<Rightarrow> string" where
  "string_of_nat n =
     (if n < 10 then [digit_char n]
      else string_of_nat (n div 10) @ [digit_char (n mod 10)])"

definition number_toString :: "int \<Rightarrow> string" where
  "number_toString i =
     (if i < 0 then CHR ''-'' # string_of_nat (nat (- i)) else string_of_nat (nat i))"

subsection \<open>Dates\<close>

text \<open>
  A timestamp (\<^verbatim>\<open>system:time_start\<close>) is a number of milliseconds since
  1970-01-01T00:00Z. The dates the script builds are all at midnight UTC, so a date is
  its year, month and day in the proleptic Gregorian calendar.
\<close>

record ee_date =
  date_year :: int
  date_month :: nat
  date_day :: nat

definition fromYMD :: "int \<Rightarrow> nat \<Rightarrow> nat \<Rightarrow> ee_date" where
  "fromYMD y m d = \<lparr>date_year = y, date_month = m, date_day = d\<rparr>"

definition is_leap_year :: "int \<Rightarrow> bool" where
  "is_leap_year y = (y mod 4 = 0 \<and> (y mod 100 \<noteq> 0 \<or> y mod 400 = 0))"

definition days_in_month :: "int \<Rightarrow> nat \<Rightarrow> nat" where
  "days_in_month y m =
     (if m = 2 then (if is_leap_year y then 29 else 28)
      else if m = 4 \<or> m = 6 \<or> m = 9 \<or> m = 11 then 30 else 31)"

text \<open>Days from 1970-01-01 to the first of January of year \<open>y\<close>.\<close>

definition days_before_year :: "int \<Rightarrow> int" where
  "days_before_year y =
     365 * (y - 1970) + ((y - 1) div 4 - (y - 1) div 100 + (y - 1) div 400) - 477"

definition days_before_month :: "int \<Rightarrow> nat \<Rightarrow> int" where
  "days_before_month y m = int (sum_list (map (days_in_month y) [1..<m]))"

definition date_millis :: "ee_date \<Rightarrow> int" where
  "date_millis d =
     (days_before_year (date_year d) + days_before_month (date_year d) (date_month d)
        + (int (date_day d) - 1)) * 86400000"

text \<open>
  \<^verbatim>\<open>date.advance(n, 'year')\<close>: the same month and day \<open>n\<close> years later, the day
  clamped to the length of the month (the 29th of February becomes the 28th).
\<close>

definition advance_year :: "int \<Rightarrow> ee_date \<Rightarrow> ee_date" where
  "advance_year n d =
     d\<lparr>date_year := date_year d + n,
       date_day := min (date_day d) (days_in_month (date_year d + n) (date_month d))\<rparr>"

text \<open>
  The calendar year of a day number (days since 1970-01-01), by cycles of 400, 100, 4
  and 1 years counted from 0001-01-01, which is day \<open>-719162\<close>.
\<close>

definition year_of_days :: "int \<Rightarrow> int" where
  "year_of_days d =
     (let n = d + 719162;
          n400 = n div 146097; r400 = n mod 146097;
          n100 = r400 div 36524; r100 = r400 mod 36524;
          n4 = r100 div 1461; r4 = r100 mod 1461;
          n1 = r4 div 365;
          y = 400 * n400 + 100 * n100 + 4 * n4 + n1 + 1
      in if n1 = 4 \<or> n100 = 4 then y - 1 else y)"

definition year_of_millis :: "int \<Rightarrow> int" where
  "year_of_millis t = year_of_days (t div 86400000)"

subsection \<open>Geometries and images\<close>

text \<open>
  A pixel is located by the longitude and latitude of its centre. The region of interest
  is \<^verbatim>\<open>ee.Geometry.Rectangle([west, south, east, north])\<close>.
\<close>

type_synonym loc = "real \<times> real"

record geometry =
  west :: real
  south :: real
  east :: real
  north :: real

definition Rectangle :: "real \<Rightarrow> real \<Rightarrow> real \<Rightarrow> real \<Rightarrow> geometry" where
  "Rectangle w s e n = \<lparr>west = w, south = s, east = e, north = n\<rparr>"

definition inside :: "geometry \<Rightarrow> loc \<Rightarrow> bool" where
  "inside g p = (west g \<le> fst p \<and> fst p \<le> east g \<and> south g \<le> snd p \<and> snd p \<le> north g)"

definition maranhao :: geometry where
  "maranhao = Rectangle (- 48.75515073699995) (- 10.261764701999937)
                        (- 41.796069069999874) (- 1.0493281209999736)"

text \<open>
  An image of the collection after \<^verbatim>\<open>select('LC_Type1')\<close> has one band of integer class
  codes. Earth Engine evaluates an image at the scale that the output asks for: at a
  scale (in metres) the image has a finite lattice of pixels, and at each pixel of it a
  value, or none where the image is masked. Operations on pixel values act at every scale
  and every pixel.
\<close>

record ee_image =
  time_start :: int
  lattice :: "nat \<Rightarrow> loc list"
  band :: "nat \<Rightarrow> loc \<Rightarrow> int option"

datatype ee_error =
    RequiredParameter string string
  | TooManyPixels

type_synonym 'a computed = "ee_error + 'a"

definition and_then :: "'a computed \<Rightarrow> ('a \<Rightarrow> 'b computed) \<Rightarrow> 'b computed" where
  "and_then r f = (case r of Inl e \<Rightarrow> Inl e | Inr v \<Rightarrow> f v)"

definition on_value :: "('a \<Rightarrow> 'b) \<Rightarrow> 'a computed \<Rightarrow> 'b computed" where
  "on_value f r = (case r of Inl e \<Rightarrow> Inl e | Inr v \<Rightarrow> Inr (f v))"

definition pixelwise :: "(int \<Rightarrow> int) \<Rightarrow> ee_image \<Rightarrow> ee_image" where
  "pixelwise f i = i\<lparr>band := \<lambda>s p. map_option f (band i s p)\<rparr>"

definition pixelwise2 :: "(int \<Rightarrow> int \<Rightarrow> int) \<Rightarrow> ee_image \<Rightarrow> ee_image \<Rightarrow> ee_image" where
  "pixelwise2 f a b =
     a\<lparr>band := \<lambda>s p. (case band a s p of None \<Rightarrow> None
                      | Some x \<Rightarrow> (case band b s p of None \<Rightarrow> None | Some y \<Rightarrow> Some (f x y)))\<rparr>"

definition img_gte :: "ee_image \<Rightarrow> int \<Rightarrow> ee_image" where
  "img_gte i k = pixelwise (\<lambda>v. if k \<le> v then 1 else 0) i"

definition img_lte :: "ee_image \<Rightarrow> int \<Rightarrow> ee_image" where
  "img_lte i k = pixelwise (\<lambda>v. if v \<le> k then 1 else 0) i"

definition img_eq :: "ee_image \<Rightarrow> int \<Rightarrow> ee_image" where
  "img_eq i k = pixelwise (\<lambda>v. if v = k then 1 else 0) i"

definition img_and :: "ee_image \<Rightarrow> ee_image \<Rightarrow> ee_image" where
  "img_and a b = pixelwise2 (\<lambda>x y. if x \<noteq> 0 \<and> y \<noteq> 0 then 1 else 0) a b"

definition img_or :: "ee_image \<Rightarrow> ee_image \<Rightarrow> ee_image" where
  "img_or a b = pixelwise2 (\<lambda>x y. if x \<noteq> 0 \<or> y \<noteq> 0 then 1 else 0) a b"

text \<open>
  A mask image selects a pixel where its value is not zero; the sum reducer adds the
  values, so it counts the selected pixels of a mask of zeros and ones.
\<close>

definition selected :: "ee_image \<Rightarrow> nat \<Rightarrow> loc \<Rightarrow> bool" where
  "selected m s p = (case band m s p of None \<Rightarrow> False | Some v \<Rightarrow> v \<noteq> 0)"

text \<open>
  \<^verbatim>\<open>collection.first()\<close> is null for an empty collection. \<^verbatim>\<open>image.clip(geometry)\<close>
  masks the pixels outside the geometry; its input is required, and a null input is the
  error of \<^verbatim>\<open>Image.clip\<close>.
\<close>

definition first_img :: "ee_image list \<Rightarrow> ee_image option" where
  "first_img c = (case c of [] \<Rightarrow> None | i # _ \<Rightarrow> Some i)"

definition clip_img :: "ee_image \<Rightarrow> geometry \<Rightarrow> ee_image" where
  "clip_img i g = i\<lparr>band := \<lambda>s p. if inside g p then band i s p else None\<rparr>"

definition clip :: "ee_image option \<Rightarrow> geometry \<Rightarrow> ee_image computed" where
  "clip input g =
     (case input of None \<Rightarrow> Inl (RequiredParameter ''Image.clip'' ''input'')
      | Some i \<Rightarrow> Inr (clip_img i g))"

subsection \<open>Filters\<close>

text \<open>
  \<^verbatim>\<open>filterDate(start, end)\<close> keeps the images whose timestamp is at or after the start
  and before the end. \<^verbatim>\<open>ee.Filter.calendarRange(start, end, 'year')\<close> keeps the images
  whose calendar year is from \<open>start\<close> to \<open>end\<close>, both included. Both keep the order of
  the collection.
\<close>

definition filterDate :: "ee_date \<Rightarrow> ee_date \<Rightarrow> ee_image list \<Rightarrow> ee_image list" where
  "filterDate start end c =
     filter (\<lambda>i. date_millis start \<le> time_start i \<and> time_start i < date_millis end) c"

definition filter_calendarRange :: "int \<Rightarrow> int \<Rightarrow> ee_image list \<Rightarrow> ee_image list" where
  "filter_calendarRange start end c =
     filter (\<lambda>i. start \<le> year_of_millis (time_start i) \<and> year_of_millis (time_start i) \<le> end) c"

text \<open>
  The collection of the script: the images of the catalog (band \<^verbatim>\<open>LC_Type1\<close>) from
  \<^verbatim>\<open>'2001-01-01'\<close> to \<^verbatim>\<open>'2024-12-31'\<close>. The two strings denote midnight UTC of
  these days. The catalog itself is outside the program and is a parameter.
\<close>

definition mcd12 :: "ee_image list \<Rightarrow> ee_image list" where
  "mcd12 catalog = filterDate (fromYMD 2001 1 1) (fromYMD 2024 12 31) catalog"

subsection \<open>Region reducers\<close>

text \<open>
  At a scale of \<open>s\<close> metres a pixel is a square cell around its centre, its side the
  scale converted to degrees at the equator, 111320 metres to the degree. The part of a
  cell that a rectangle covers is the product of the parts covered in longitude and in
  latitude, a number from 0 to 1.
\<close>

definition cell_side :: "nat \<Rightarrow> real" where
  "cell_side s = real s / 111320"

definition overlap :: "real \<Rightarrow> real \<Rightarrow> real \<Rightarrow> real \<Rightarrow> real" where
  "overlap lo hi a b = max 0 (min hi b - max lo a)"

definition coverage :: "geometry \<Rightarrow> nat \<Rightarrow> loc \<Rightarrow> real" where
  "coverage g s p =
     (overlap (west g) (east g) (fst p - cell_side s / 2) (fst p + cell_side s / 2) / cell_side s)
     * (overlap (south g) (north g) (snd p - cell_side s / 2) (snd p + cell_side s / 2)
          / cell_side s)"

text \<open>
  \<^verbatim>\<open>image.reduceRegion({reducer, geometry, scale, maxPixels})\<close> reduces the values of the
  unmasked pixels that the image has, at the scale, in the geometry. The reducers of the
  script, \<^verbatim>\<open>ee.Reducer.sum()\<close> and \<^verbatim>\<open>ee.Reducer.frequencyHistogram()\<close>, are weighted:
  a pixel is in the region when the geometry covers at least 0.5 percent of it, and its
  weight is the part of it that the geometry covers. The sum adds each value times its
  weight; the histogram adds, for each value, the weights of the pixels that have it. The
  reduction fails when the region holds more than \<open>maxPixels\<close> pixels. The result is
  read under the key of the only band, \<^verbatim>\<open>LC_Type1\<close>.
\<close>

definition region_pixels :: "ee_image \<Rightarrow> geometry \<Rightarrow> nat \<Rightarrow> loc list" where
  "region_pixels i g s = filter (\<lambda>p. 1 / 200 \<le> coverage g s p) (lattice i s)"

definition region_values :: "ee_image \<Rightarrow> geometry \<Rightarrow> nat \<Rightarrow> int list" where
  "region_values i g s = List.map_filter (band i s) (region_pixels i g s)"

definition region_weighted :: "ee_image \<Rightarrow> geometry \<Rightarrow> nat \<Rightarrow> (int \<times> real) list" where
  "region_weighted i g s =
     List.map_filter (\<lambda>p. map_option (\<lambda>v. (v, coverage g s p)) (band i s p))
       (region_pixels i g s)"

definition frequencyHistogram :: "(int \<times> real) list \<Rightarrow> (int \<times> real) list" where
  "frequencyHistogram vw =
     map (\<lambda>c. (c, sum_list (map snd (filter (\<lambda>x. fst x = c) vw)))) (sort (remdups (map fst vw)))"

definition weighted_sum :: "(int \<times> real) list \<Rightarrow> real" where
  "weighted_sum vw = sum_list (map (\<lambda>x. real_of_int (fst x) * snd x) vw)"

definition reduceRegion_frequencyHistogram ::
  "ee_image \<Rightarrow> geometry \<Rightarrow> nat \<Rightarrow> nat \<Rightarrow> (int \<times> real) list computed" where
  "reduceRegion_frequencyHistogram i g s maxPixels =
     (if maxPixels < length (region_pixels i g s) then Inl TooManyPixels
      else Inr (frequencyHistogram (region_weighted i g s)))"

definition reduceRegion_sum :: "ee_image \<Rightarrow> geometry \<Rightarrow> nat \<Rightarrow> nat \<Rightarrow> real computed" where
  "reduceRegion_sum i g s maxPixels =
     (if maxPixels < length (region_pixels i g s) then Inl TooManyPixels
      else Inr (weighted_sum (region_weighted i g s)))"

subsection \<open>The console and the export tasks\<close>

datatype ee_value = Dictionary "(int \<times> real) list" | Number real

record export_task =
  task_image :: "ee_image computed"
  description :: string
  folder :: string
  fileNamePrefix :: string
  task_region :: geometry
  task_scale :: nat
  crs :: string
  task_maxPixels :: nat
  fileFormat :: string

record session =
  console :: "(string \<times> ee_value computed) list"
  tasks :: "export_task list"

definition print :: "string \<Rightarrow> ee_value computed \<Rightarrow> session \<Rightarrow> session" where
  "print label v s = s\<lparr>console := console s @ [(label, v)]\<rparr>"

definition toDrive :: "export_task \<Rightarrow> session \<Rightarrow> session" where
  "toDrive t s = s\<lparr>tasks := tasks s @ [t]\<rparr>"

fun forEach :: "('a \<Rightarrow> session \<Rightarrow> session) \<Rightarrow> 'a list \<Rightarrow> session \<Rightarrow> session" where
  "forEach f [] s = s"
| "forEach f (x # xs) s = forEach f xs (f x s)"

subsection \<open>analyzeLandCover\<close>

text \<open>
  The function prints five values for a year, each under its label; the labels are those
  of the script, with \<^verbatim>\<open>km2\<close> for the unit. The intermediate values of the function
  keep their names. Numbers are reals; the rounding of double precision is left out. The
  map layers of the script and the prints of its top level only display, and are left
  out.
\<close>

definition year_image :: "ee_image list \<Rightarrow> int \<Rightarrow> ee_image computed" where
  "year_image c year = clip (first_img (filter_calendarRange year year c)) maranhao"

definition forest :: "ee_image \<Rightarrow> ee_image" where
  "forest img = img_and (img_gte img 1) (img_lte img 5)"

definition savanna :: "ee_image \<Rightarrow> ee_image" where
  "savanna img = img_and (img_gte img 6) (img_lte img 9)"

definition cropland :: "ee_image \<Rightarrow> ee_image" where
  "cropland img = img_or (img_eq img 12) (img_eq img 14)"

definition histogram :: "ee_image computed \<Rightarrow> (int \<times> real) list computed" where
  "histogram img =
     and_then img (\<lambda>i. reduceRegion_frequencyHistogram i maranhao 500 10000000000000)"

definition forestPixelCount :: "ee_image computed \<Rightarrow> real computed" where
  "forestPixelCount img =
     and_then (on_value forest img) (\<lambda>m. reduceRegion_sum m maranhao 500 10000000000000)"

definition forestAreaKm2 :: "ee_image computed \<Rightarrow> real computed" where
  "forestAreaKm2 img = on_value (\<lambda>n. n * 0.25) (forestPixelCount img)"

definition savannaAreaKm2 :: "ee_image computed \<Rightarrow> real computed" where
  "savannaAreaKm2 img =
     on_value (\<lambda>n. n * 0.25)
       (and_then (on_value savanna img) (\<lambda>m. reduceRegion_sum m maranhao 500 10000000000000))"

definition cropAreaKm2 :: "ee_image computed \<Rightarrow> real computed" where
  "cropAreaKm2 img =
     on_value (\<lambda>n. n * 0.25)
       (and_then (on_value cropland img) (\<lambda>m. reduceRegion_sum m maranhao 500 10000000000000))"

definition analyzeLandCover :: "ee_image list \<Rightarrow> int \<Rightarrow> session \<Rightarrow> session" where
  "analyzeLandCover c year s =
     (let img = year_image c year;
          s1 = print (''Year '' @ number_toString year @ '' - Land Cover Classes:'')
                 (on_value Dictionary (histogram img)) s;
          s2 = print (''Year '' @ number_toString year @ '' - Forest pixels:'')
                 (on_value Number (forestPixelCount img)) s1;
          s3 = print (''Year '' @ number_toString year @ '' - Forest area (km2):'')
                 (on_value Number (forestAreaKm2 img)) s2;
          s4 = print (''Year '' @ number_toString year @ '' - Savanna/Shrub area (km2):'')
                 (on_value Number (savannaAreaKm2 img)) s3
      in print (''Year '' @ number_toString year @ '' - Agriculture area (km2):'')
           (on_value Number (cropAreaKm2 img)) s4)"

subsection \<open>exportYear\<close>

definition export_image :: "ee_image list \<Rightarrow> int \<Rightarrow> ee_image computed" where
  "export_image c year =
     (let startDate = fromYMD year 1 1;
          endDate = advance_year 1 startDate
      in clip (first_img (filterDate startDate endDate c)) maranhao)"

definition exportYear :: "ee_image list \<Rightarrow> int \<Rightarrow> session \<Rightarrow> session" where
  "exportYear c year s =
     toDrive \<lparr>task_image = export_image c year,
              description = ''MCD12Q1_Maranhao_'' @ number_toString year,
              folder = ''MODIS_Land_Cover_Maranhao'',
              fileNamePrefix = ''MCD12Q1_Maranhao_'' @ number_toString year,
              task_region = maranhao,
              task_scale = 500,
              crs = ''EPSG:4326'',
              task_maxPixels = 10000000000000,
              fileFormat = ''GeoTIFF''\<rparr> s"

subsection \<open>The two batch runs of the script\<close>

definition analyze_key_years :: "ee_image list \<Rightarrow> session \<Rightarrow> session" where
  "analyze_key_years c s = forEach (analyzeLandCover c) [2001, 2005, 2010, 2015, 2020, 2024] s"

definition export_all_years :: "ee_image list \<Rightarrow> session \<Rightarrow> session" where
  "export_all_years c s = forEach (exportYear c) [2001 .. 2024] s"

subsection \<open>A synthetic catalog\<close>

text \<open>
  A raster of four by four pixels: the western column lies outside the region of
  interest; inside it, class 2 occupies six pixels, classes 8 and 9 two, classes 12 and
  14 two, and classes 10 and 17 one each. The synthetic catalog has a frame for 2001 and
  for 2003, and none for 2002.
\<close>

definition synthetic_pixels :: "(loc \<times> int) list" where
  "synthetic_pixels =
     [((- 50, - 6), 2), ((- 46, - 6), 2), ((- 45, - 6), 2), ((- 44, - 6), 2),
      ((- 50, - 5), 2), ((- 46, - 5), 2), ((- 45, - 5), 2), ((- 44, - 5), 2),
      ((- 50, - 4), 9), ((- 46, - 4), 9), ((- 45, - 4), 10), ((- 44, - 4), 12),
      ((- 50, - 3), 14), ((- 46, - 3), 8), ((- 45, - 3), 14), ((- 44, - 3), 17)]"

definition synthetic_frame :: "ee_date \<Rightarrow> ee_image" where
  "synthetic_frame d =
     \<lparr>time_start = date_millis d,
      lattice = \<lambda>s. map fst synthetic_pixels,
      band = \<lambda>s. map_of synthetic_pixels\<rparr>"

definition synthetic_catalog :: "ee_image list" where
  "synthetic_catalog = [synthetic_frame (fromYMD 2001 1 1), synthetic_frame (fromYMD 2003 1 1)]"

text \<open>
  A frame of six forest pixels, the first of them centred on the western border of the
  region of interest, so that the region covers half of it.
\<close>

definition border_frame :: ee_image where
  "border_frame =
     \<lparr>time_start = date_millis (fromYMD 2001 1 1),
      lattice = \<lambda>s. [(- 48.75515073699995, - 5), (- 46, - 6), (- 45, - 6), (- 44, - 6),
                     (- 46, - 5), (- 45, - 5)],
      band = \<lambda>s p. Some 2\<rparr>"

definition empty_session :: session where
  "empty_session = \<lparr>console = [], tasks = []\<rparr>"

section \<open>Properties\<close>

subsection \<open>Names of the export tasks\<close>

declare string_of_nat.simps [simp del]

lemma digit_char_inj: "a < 10 \<Longrightarrow> b < 10 \<Longrightarrow> digit_char a = digit_char b \<Longrightarrow> a = b"
proof -
  assume a: "a < 10" and b: "b < 10" and eq: "digit_char a = digit_char b"
  have "distinct ''0123456789''" by simp
  moreover have "a < length ''0123456789''" "b < length ''0123456789''" using a b by simp_all
  ultimately show "a = b" using eq unfolding digit_char_def by (simp only: nth_eq_iff_index_eq)
qed

lemma digit_char_in: "a < 10 \<Longrightarrow> digit_char a \<in> set ''0123456789''"
  unfolding digit_char_def by (rule nth_mem) simp

lemma string_of_nat_digits: "set (string_of_nat n) \<subseteq> set ''0123456789''"
proof (induction n rule: string_of_nat.induct)
  case (1 n)
  show ?case
  proof (cases "n < 10")
    case True
    then show ?thesis using digit_char_in [of n] by (subst string_of_nat.simps) simp
  next
    case False
    moreover have "n mod 10 < 10" by simp
    ultimately show ?thesis using 1 digit_char_in [of "n mod 10"]
      by (subst string_of_nat.simps) simp
  qed
qed

lemma string_of_nat_not_Nil: "string_of_nat n \<noteq> []"
  by (subst string_of_nat.simps) simp

lemma string_of_nat_inj: "string_of_nat m = string_of_nat n \<Longrightarrow> m = n"
proof (induction m arbitrary: n rule: string_of_nat.induct)
  case (1 m)
  show ?case
  proof (cases "m < 10")
    case m: True
    show ?thesis
    proof (cases "n < 10")
      case True
      then show ?thesis using m "1.prems" digit_char_inj [of m n]
        by (simp add: string_of_nat.simps [of m] string_of_nat.simps [of n])
    next
      case False
      then show ?thesis using m "1.prems" string_of_nat_not_Nil [of "n div 10"]
        by (simp add: string_of_nat.simps [of m] string_of_nat.simps [of n])
    qed
  next
    case m: False
    show ?thesis
    proof (cases "n < 10")
      case True
      then show ?thesis using m "1.prems" string_of_nat_not_Nil [of "m div 10"]
        by (simp add: string_of_nat.simps [of m] string_of_nat.simps [of n])
    next
      case False
      then have "string_of_nat (m div 10) = string_of_nat (n div 10)"
        and dg: "digit_char (m mod 10) = digit_char (n mod 10)"
        using m "1.prems" by (simp_all add: string_of_nat.simps [of m] string_of_nat.simps [of n])
      then have "m div 10 = n div 10" using "1.IH" [OF m] by simp
      moreover have "m mod 10 = n mod 10" using dg by (intro digit_char_inj) simp_all
      ultimately show ?thesis by (metis div_mult_mod_eq)
    qed
  qed
qed

lemma no_minus_digit: "CHR ''-'' # s \<noteq> string_of_nat n"
proof
  assume "CHR ''-'' # s = string_of_nat n"
  then have "CHR ''-'' \<in> set (string_of_nat n)" by (metis list.set_intros(1))
  then show False using string_of_nat_digits [of n] by auto
qed

lemma number_toString_inj: "number_toString i = number_toString j \<Longrightarrow> i = j"
proof -
  assume eq: "number_toString i = number_toString j"
  show "i = j"
  proof (cases "i < 0")
    case i: True
    show ?thesis
    proof (cases "j < 0")
      case True
      then have "nat (- i) = nat (- j)" using i eq string_of_nat_inj
        by (simp add: number_toString_def)
      then show ?thesis using i True by simp
    next
      case False
      then show ?thesis using i eq no_minus_digit by (simp add: number_toString_def)
    qed
  next
    case i: False
    show ?thesis
    proof (cases "j < 0")
      case True
      then show ?thesis using i eq no_minus_digit [of "string_of_nat (nat (- j))" "nat i"]
        by (simp add: number_toString_def)
    next
      case False
      then have "nat i = nat j" using i eq string_of_nat_inj
        by (simp add: number_toString_def)
      then show ?thesis using i False by simp
    qed
  qed
qed

lemma number_toString_2001_2003:
  "number_toString 2001 = ''2001''" "number_toString 2002 = ''2002''"
  "number_toString 2003 = ''2003''"
  by (simp_all add: number_toString_def string_of_nat.simps digit_char_def)

text \<open>
  Claim C8. The description and the file name prefix of the export task of a year are
  the template \<^verbatim>\<open>MCD12Q1_Maranhao_\<close> followed by the year in decimal, whatever the
  collection and the session; so the tasks of two distinct years have distinct names.
\<close>

theorem export_name_from_year:
  "description (last (tasks (exportYear c y s))) = ''MCD12Q1_Maranhao_'' @ number_toString y
   \<and> fileNamePrefix (last (tasks (exportYear c y s))) = ''MCD12Q1_Maranhao_'' @ number_toString y
   \<and> (y \<noteq> z \<longrightarrow>
        description (last (tasks (exportYear c y s)))
          \<noteq> description (last (tasks (exportYear c' z s')))
        \<and> fileNamePrefix (last (tasks (exportYear c y s)))
          \<noteq> fileNamePrefix (last (tasks (exportYear c' z s'))))"
proof -
  have "y \<noteq> z \<longrightarrow> number_toString y \<noteq> number_toString z"
    using number_toString_inj [of y z] by blast
  then show ?thesis by (simp add: exportYear_def toDrive_def)
qed

text \<open>The years 2001 and 2002, from different collections.\<close>

theorem export_name_witness:
  "(2001 :: int) \<noteq> 2002
   \<and> description (last (tasks (exportYear synthetic_catalog 2001 empty_session)))
       = ''MCD12Q1_Maranhao_2001''
   \<and> description (last (tasks (exportYear [] 2002 empty_session))) = ''MCD12Q1_Maranhao_2002''
   \<and> description (last (tasks (exportYear synthetic_catalog 2001 empty_session)))
       \<noteq> description (last (tasks (exportYear [] 2002 empty_session)))"
  using export_name_from_year [of synthetic_catalog 2001 empty_session 2002 "[]" empty_session]
    export_name_from_year [of "[]" 2002 empty_session 2001 "[]" empty_session]
  by (simp add: number_toString_2001_2003)

subsection \<open>Masks and region sums\<close>

lemma band_forest:
  "band (forest i) s p = map_option (\<lambda>c. if 1 \<le> c \<and> c \<le> 5 then 1 else 0) (band i s p)"
  by (cases "band i s p")
     (simp_all add: forest_def img_and_def img_gte_def img_lte_def pixelwise_def pixelwise2_def)

lemma band_savanna:
  "band (savanna i) s p = map_option (\<lambda>c. if 6 \<le> c \<and> c \<le> 9 then 1 else 0) (band i s p)"
  by (cases "band i s p")
     (simp_all add: savanna_def img_and_def img_gte_def img_lte_def pixelwise_def pixelwise2_def)

lemma band_cropland:
  "band (cropland i) s p = map_option (\<lambda>c. if c = 12 \<or> c = 14 then 1 else 0) (band i s p)"
  by (cases "band i s p")
     (simp_all add: cropland_def img_or_def img_eq_def pixelwise_def pixelwise2_def)

lemma lattice_masks:
  "lattice (forest i) = lattice i" "lattice (savanna i) = lattice i"
  "lattice (cropland i) = lattice i"
  by (simp_all add: forest_def savanna_def cropland_def img_and_def img_or_def pixelwise2_def
        img_gte_def img_eq_def pixelwise_def)

lemma region_pixels_masks:
  "region_pixels (forest i) g s = region_pixels i g s"
  "region_pixels (savanna i) g s = region_pixels i g s"
  "region_pixels (cropland i) g s = region_pixels i g s"
  by (simp_all add: region_pixels_def lattice_masks)

lemma band_masks_fun:
  "band (forest i) s = (\<lambda>p. map_option (\<lambda>c. if 1 \<le> c \<and> c \<le> 5 then 1 else 0) (band i s p))"
  "band (savanna i) s = (\<lambda>p. map_option (\<lambda>c. if 6 \<le> c \<and> c \<le> 9 then 1 else 0) (band i s p))"
  "band (cropland i) s = (\<lambda>p. map_option (\<lambda>c. if c = 12 \<or> c = 14 then 1 else 0) (band i s p))"
  by (rule ext, rule band_forest, rule ext, rule band_savanna, rule ext, rule band_cropland)

lemma map_filter_weighted_map_option:
  "List.map_filter (\<lambda>p. map_option (\<lambda>v. (v, w p)) (map_option f (b p))) xs
     = map (\<lambda>x. (f (fst x), snd x)) (List.map_filter (\<lambda>p. map_option (\<lambda>v. (v, w p)) (b p)) xs)"
  by (induction xs) (simp_all add: List.map_filter_simps split: option.splits)

lemma region_weighted_forest:
  "region_weighted (forest i) g s
     = map (\<lambda>x. (if 1 \<le> fst x \<and> fst x \<le> 5 then 1 else 0, snd x)) (region_weighted i g s)"
  by (simp add: region_weighted_def region_pixels_masks band_forest
        map_filter_weighted_map_option)

lemma region_weighted_savanna:
  "region_weighted (savanna i) g s
     = map (\<lambda>x. (if 6 \<le> fst x \<and> fst x \<le> 9 then 1 else 0, snd x)) (region_weighted i g s)"
  by (simp add: region_weighted_def region_pixels_masks band_savanna
        map_filter_weighted_map_option)

lemma region_weighted_cropland:
  "region_weighted (cropland i) g s
     = map (\<lambda>x. (if fst x = 12 \<or> fst x = 14 then 1 else 0, snd x)) (region_weighted i g s)"
  by (simp add: region_weighted_def region_pixels_masks band_cropland
        map_filter_weighted_map_option)

lemma weighted_sum_indicator:
  "weighted_sum (map (\<lambda>x. (if P (fst x) then 1 else 0, snd x)) vw)
     = sum_list (map snd (filter (\<lambda>x. P (fst x)) vw))"
  by (induction vw) (simp_all add: weighted_sum_def)

lemma region_values_weighted: "region_values i g s = map fst (region_weighted i g s)"
proof -
  have "List.map_filter b xs = map fst (List.map_filter (\<lambda>p. map_option (\<lambda>v. (v, w p)) (b p)) xs)"
    for b :: "loc \<Rightarrow> int option" and w :: "loc \<Rightarrow> real" and xs
    by (induction xs) (simp_all add: List.map_filter_simps split: option.splits)
  then show ?thesis by (simp add: region_values_def region_weighted_def)
qed

lemma forestAreaKm2_value:
  "length (region_pixels i maranhao 500) \<le> 10000000000000 \<Longrightarrow>
   forestAreaKm2 (Inr i)
     = Inr (sum_list (map snd (filter (\<lambda>x. 1 \<le> fst x \<and> fst x \<le> 5)
              (region_weighted i maranhao 500))) * 0.25)"
  by (simp add: forestAreaKm2_def forestPixelCount_def on_value_def and_then_def
        reduceRegion_sum_def region_pixels_masks region_weighted_forest
        weighted_sum_indicator [of "\<lambda>c. 1 \<le> c \<and> c \<le> 5"])

lemma savannaAreaKm2_value:
  "length (region_pixels i maranhao 500) \<le> 10000000000000 \<Longrightarrow>
   savannaAreaKm2 (Inr i)
     = Inr (sum_list (map snd (filter (\<lambda>x. 6 \<le> fst x \<and> fst x \<le> 9)
              (region_weighted i maranhao 500))) * 0.25)"
  by (simp add: savannaAreaKm2_def on_value_def and_then_def
        reduceRegion_sum_def region_pixels_masks region_weighted_savanna
        weighted_sum_indicator [of "\<lambda>c. 6 \<le> c \<and> c \<le> 9"])

lemma cropAreaKm2_value:
  "length (region_pixels i maranhao 500) \<le> 10000000000000 \<Longrightarrow>
   cropAreaKm2 (Inr i)
     = Inr (sum_list (map snd (filter (\<lambda>x. fst x = 12 \<or> fst x = 14)
              (region_weighted i maranhao 500))) * 0.25)"
  by (simp add: cropAreaKm2_def on_value_def and_then_def
        reduceRegion_sum_def region_pixels_masks region_weighted_cropland
        weighted_sum_indicator [of "\<lambda>c. c = 12 \<or> c = 14"])

lemma area_too_many_pixels:
  "10000000000000 < length (region_pixels i maranhao 500) \<Longrightarrow>
   forestAreaKm2 (Inr i) = Inl TooManyPixels \<and> savannaAreaKm2 (Inr i) = Inl TooManyPixels
     \<and> cropAreaKm2 (Inr i) = Inl TooManyPixels"
  by (simp add: forestAreaKm2_def forestPixelCount_def savannaAreaKm2_def cropAreaKm2_def
        on_value_def and_then_def reduceRegion_sum_def region_pixels_masks)

lemma whole_pixels_sum:
  "(\<forall>x\<in>set vw. snd x = (1 :: real)) \<Longrightarrow>
   sum_list (map snd (filter (\<lambda>x. P (fst x)) vw)) = real (length (filter P (map fst vw)))"
  by (induction vw) simp_all

lemma synthetic_region_pixels:
  "region_pixels (synthetic_frame d) maranhao 500 =
     [(- 46, - 6), (- 45, - 6), (- 44, - 6), (- 46, - 5), (- 45, - 5), (- 44, - 5),
      (- 46, - 4), (- 45, - 4), (- 44, - 4), (- 46, - 3), (- 45, - 3), (- 44, - 3)]"
  by (simp add: region_pixels_def synthetic_frame_def synthetic_pixels_def maranhao_def
        Rectangle_def coverage_def overlap_def cell_side_def)

lemma synthetic_region_weighted:
  "region_weighted (synthetic_frame d) maranhao 500 =
     [(2, 1), (2, 1), (2, 1), (2, 1), (2, 1), (2, 1),
      (9, 1), (10, 1), (12, 1), (8, 1), (14, 1), (17, 1)]"
  by (simp add: region_weighted_def synthetic_region_pixels List.map_filter_simps)
     (simp add: synthetic_frame_def synthetic_pixels_def maranhao_def
        Rectangle_def coverage_def overlap_def cell_side_def)

lemma synthetic_region_values:
  "region_values (synthetic_frame d) maranhao 500 = [2, 2, 2, 2, 2, 2, 9, 10, 12, 8, 14, 17]"
  by (simp add: region_values_weighted synthetic_region_weighted)

lemma border_region_pixels:
  "region_pixels (clip_img border_frame maranhao) maranhao 500 =
     [(- 48.75515073699995, - 5), (- 46, - 6), (- 45, - 6), (- 44, - 6), (- 46, - 5), (- 45, - 5)]"
  by (simp add: region_pixels_def clip_img_def border_frame_def maranhao_def
        Rectangle_def coverage_def overlap_def cell_side_def)

lemma border_region_weighted:
  "region_weighted (clip_img border_frame maranhao) maranhao 500 =
     [(2, 1 / 2), (2, 1), (2, 1), (2, 1), (2, 1), (2, 1)]"
  by (simp add: region_weighted_def border_region_pixels List.map_filter_simps)
     (simp add: clip_img_def border_frame_def maranhao_def inside_def
        Rectangle_def coverage_def overlap_def cell_side_def)

subsection \<open>Group areas\<close>

text \<open>
  Claim C3 says that the area of a group is the count of its matched pixels times
  \<open>(500 / 1000)\<^sup>2\<close>, each pixel giving exactly 0.25 square kilometres, so that six
  matched pixels give exactly 1.5. The sum reducer weights a pixel by the part of it that
  the region covers: of the six forest pixels of the border frame one is half covered,
  the forest sum is 5.5 and the forest area 1.375 square kilometres.
\<close>

theorem border_pixel_counts_less:
  "length (filter (\<lambda>c. 1 \<le> c \<and> c \<le> 5)
      (region_values (clip_img border_frame maranhao) maranhao 500)) = 6
   \<and> forestPixelCount (Inr (clip_img border_frame maranhao)) = Inr 5.5
   \<and> forestAreaKm2 (Inr (clip_img border_frame maranhao)) = Inr 1.375
   \<and> forestAreaKm2 (Inr (clip_img border_frame maranhao)) \<noteq> Inr (6 * (500 / 1000)\<^sup>2)"
proof -
  have h: "length (region_pixels (clip_img border_frame maranhao) maranhao 500) \<le> 10000000000000"
    by (simp add: border_region_pixels)
  have a: "forestAreaKm2 (Inr (clip_img border_frame maranhao)) = Inr 1.375"
    using forestAreaKm2_value [OF h] by (simp add: border_region_weighted)
  have c: "forestPixelCount (Inr (clip_img border_frame maranhao)) = Inr 5.5"
    using h
    by (simp add: forestPixelCount_def on_value_def and_then_def reduceRegion_sum_def
          region_pixels_masks region_weighted_forest border_region_weighted weighted_sum_def)
  show ?thesis
    using a c by (simp add: region_values_weighted border_region_weighted power2_eq_square)
qed

text \<open>
  Claim C3, amended. For each class group the computed area is the sum, over the pixels
  of the region whose class code the group matches, of the part of the pixel that the
  region covers, multiplied by the square of the scale in kilometres,
  \<open>(500 / 1000)\<^sup>2 = 0.25\<close>. Where the region covers every one of its pixels wholly,
  the area is the count of the matched pixels times 0.25, and a group that matches six
  pixels has the area 1.5 square kilometres. The region must hold at most \<open>maxPixels\<close>
  pixels, or the reduction fails.
\<close>

theorem group_area_is_covered_count_times_pixel_area:
  "length (region_pixels i maranhao 500) \<le> 10000000000000 \<Longrightarrow>
   forestAreaKm2 (Inr i)
      = Inr (sum_list (map snd (filter (\<lambda>x. 1 \<le> fst x \<and> fst x \<le> 5)
               (region_weighted i maranhao 500))) * (500 / 1000)\<^sup>2)
   \<and> savannaAreaKm2 (Inr i)
      = Inr (sum_list (map snd (filter (\<lambda>x. 6 \<le> fst x \<and> fst x \<le> 9)
               (region_weighted i maranhao 500))) * (500 / 1000)\<^sup>2)
   \<and> cropAreaKm2 (Inr i)
      = Inr (sum_list (map snd (filter (\<lambda>x. fst x = 12 \<or> fst x = 14)
               (region_weighted i maranhao 500))) * (500 / 1000)\<^sup>2)
   \<and> ((500 / 1000)\<^sup>2 = (0.25 :: real))
   \<and> ((\<forall>x\<in>set (region_weighted i maranhao 500). snd x = 1) \<longrightarrow>
        forestAreaKm2 (Inr i)
          = Inr (real (length (filter (\<lambda>c. 1 \<le> c \<and> c \<le> 5) (region_values i maranhao 500)))
                   * (500 / 1000)\<^sup>2)
        \<and> savannaAreaKm2 (Inr i)
          = Inr (real (length (filter (\<lambda>c. 6 \<le> c \<and> c \<le> 9) (region_values i maranhao 500)))
                   * (500 / 1000)\<^sup>2)
        \<and> cropAreaKm2 (Inr i)
          = Inr (real (length (filter (\<lambda>c. c = 12 \<or> c = 14) (region_values i maranhao 500)))
                   * (500 / 1000)\<^sup>2)
        \<and> (length (filter (\<lambda>c. 1 \<le> c \<and> c \<le> 5) (region_values i maranhao 500)) = 6
             \<longrightarrow> forestAreaKm2 (Inr i) = Inr 1.5))"
proof -
  assume h: "length (region_pixels i maranhao 500) \<le> 10000000000000"
  have sq: "(500 / 1000)\<^sup>2 = (0.25 :: real)" by (simp add: power2_eq_square)
  have w: "forestAreaKm2 (Inr i)
          = Inr (real (length (filter (\<lambda>c. 1 \<le> c \<and> c \<le> 5) (region_values i maranhao 500))) * 0.25)
        \<and> savannaAreaKm2 (Inr i)
          = Inr (real (length (filter (\<lambda>c. 6 \<le> c \<and> c \<le> 9) (region_values i maranhao 500))) * 0.25)
        \<and> cropAreaKm2 (Inr i)
          = Inr (real (length (filter (\<lambda>c. c = 12 \<or> c = 14) (region_values i maranhao 500))) * 0.25)"
    if a: "\<forall>x\<in>set (region_weighted i maranhao 500). snd x = 1"
    using forestAreaKm2_value [OF h] savannaAreaKm2_value [OF h] cropAreaKm2_value [OF h]
      whole_pixels_sum [OF a, of "\<lambda>c. 1 \<le> c \<and> c \<le> 5"]
      whole_pixels_sum [OF a, of "\<lambda>c. 6 \<le> c \<and> c \<le> 9"]
      whole_pixels_sum [OF a, of "\<lambda>c. c = 12 \<or> c = 14"]
    by (simp add: region_values_weighted)
  show ?thesis
    unfolding sq
    using forestAreaKm2_value [OF h] savannaAreaKm2_value [OF h] cropAreaKm2_value [OF h] w
    by auto
qed

text \<open>The synthetic raster: twelve whole pixels, six of them forest, 1.5 square kilometres.\<close>

theorem group_area_witness:
  "length (region_pixels (synthetic_frame (fromYMD 2001 1 1)) maranhao 500) \<le> 10000000000000
   \<and> map snd (region_weighted (synthetic_frame (fromYMD 2001 1 1)) maranhao 500)
       = [1, 1, 1, 1, 1, 1, 1, 1, 1, 1, 1, 1]
   \<and> length (filter (\<lambda>c. 1 \<le> c \<and> c \<le> 5)
         (region_values (synthetic_frame (fromYMD 2001 1 1)) maranhao 500)) = 6
   \<and> forestAreaKm2 (Inr (synthetic_frame (fromYMD 2001 1 1))) = Inr 1.5
   \<and> savannaAreaKm2 (Inr (synthetic_frame (fromYMD 2001 1 1))) = Inr 0.5
   \<and> cropAreaKm2 (Inr (synthetic_frame (fromYMD 2001 1 1))) = Inr 0.5"
proof -
  have h: "length (region_pixels (synthetic_frame (fromYMD 2001 1 1)) maranhao 500)
             \<le> 10000000000000"
    by (simp add: synthetic_region_pixels)
  have a: "\<forall>x\<in>set (region_weighted (synthetic_frame (fromYMD 2001 1 1)) maranhao 500). snd x = 1"
    by (simp add: synthetic_region_weighted)
  show ?thesis
    using h a group_area_is_covered_count_times_pixel_area [OF h]
    by (simp add: synthetic_region_values synthetic_region_weighted)
qed

lemma overlap_part:
  "0 \<le> c \<Longrightarrow> 0 \<le> overlap lo hi (x - c / 2) (x + c / 2) / c
     \<and> overlap lo hi (x - c / 2) (x + c / 2) / c \<le> 1"
proof -
  assume c: "0 \<le> c"
  have o: "0 \<le> overlap lo hi (x - c / 2) (x + c / 2)" by (simp add: overlap_def)
  have u: "overlap lo hi (x - c / 2) (x + c / 2) \<le> c"
    using c by (simp add: overlap_def max_def min_def)
  show ?thesis
  proof (cases "c = 0")
    case True
    then show ?thesis by simp
  next
    case False
    then have "0 < c" using c by simp
    then show ?thesis using o u by simp
  qed
qed

lemma unit_mult:
  "0 \<le> a \<and> a \<le> 1 \<Longrightarrow> 0 \<le> b \<and> b \<le> (1 :: real) \<Longrightarrow> 0 \<le> a * b \<and> a * b \<le> 1"
  by (simp add: mult_le_one)

lemma coverage_bounds: "0 \<le> coverage g s p \<and> coverage g s p \<le> 1"
proof -
  have c: "0 \<le> cell_side s" by (simp add: cell_side_def)
  show ?thesis
    unfolding coverage_def
    by (rule unit_mult [OF overlap_part [OF c] overlap_part [OF c]])
qed

lemma region_weighted_bounds:
  "\<forall>x\<in>set (region_weighted i g s). 0 \<le> snd x \<and> snd x \<le> 1"
proof -
  have "\<forall>x\<in>set (List.map_filter (\<lambda>p. map_option (\<lambda>v. (v, coverage g s p)) (b p)) xs).
          0 \<le> snd x \<and> snd x \<le> 1" for b :: "loc \<Rightarrow> int option" and xs
    using coverage_bounds
    by (induction xs) (auto simp: List.map_filter_simps split: option.splits)
  then show ?thesis by (simp add: region_weighted_def)
qed

lemma weights_nonneg:
  "\<forall>x\<in>set vw. 0 \<le> snd x \<and> snd x \<le> (1 :: real) \<Longrightarrow>
   0 \<le> sum_list (map snd (filter P vw))"
  by (induction vw) simp_all

lemma group_weights_le:
  "\<forall>x\<in>set vw. 0 \<le> snd x \<and> snd x \<le> (1 :: real) \<Longrightarrow>
   sum_list (map snd (filter (\<lambda>x. 1 \<le> fst x \<and> fst x \<le> 5) (vw :: (int \<times> real) list)))
     + sum_list (map snd (filter (\<lambda>x. 6 \<le> fst x \<and> fst x \<le> 9) vw))
     + sum_list (map snd (filter (\<lambda>x. fst x = 12 \<or> fst x = 14) vw)) \<le> real (length vw)"
  by (induction vw) auto

lemma region_values_le_pixels: "length (region_values i g s) \<le> length (region_pixels i g s)"
proof -
  have "length (List.map_filter f xs) \<le> length xs" for f :: "loc \<Rightarrow> int option" and xs
    by (induction xs) (simp_all add: List.map_filter_simps split: option.splits)
  then show ?thesis by (simp add: region_values_def)
qed

text \<open>
  Claim C4. For every frame, each of the three group areas that the analysis computes is
  non-negative, and their sum is at most the area of the pixels of the region of
  interest: the number of pixels inside the region times \<open>(500 / 1000)\<^sup>2\<close>, whether
  the pixels counted are the unmasked ones or all of them.
\<close>

theorem group_areas_bounded:
  "forestAreaKm2 (Inr i) = Inr f \<Longrightarrow> savannaAreaKm2 (Inr i) = Inr v \<Longrightarrow>
   cropAreaKm2 (Inr i) = Inr a \<Longrightarrow>
   0 \<le> f \<and> 0 \<le> v \<and> 0 \<le> a
   \<and> f + v + a \<le> real (length (region_values i maranhao 500)) * (500 / 1000)\<^sup>2
   \<and> f + v + a \<le> real (length (region_pixels i maranhao 500)) * (500 / 1000)\<^sup>2"
proof -
  assume f: "forestAreaKm2 (Inr i) = Inr f" and v: "savannaAreaKm2 (Inr i) = Inr v"
    and a: "cropAreaKm2 (Inr i) = Inr a"
  have h: "length (region_pixels i maranhao 500) \<le> 10000000000000"
  proof (rule ccontr)
    assume "\<not> length (region_pixels i maranhao 500) \<le> 10000000000000"
    then have "forestAreaKm2 (Inr i) = Inl TooManyPixels" using area_too_many_pixels [of i] by simp
    then show False using f by simp
  qed
  let ?vw = "region_weighted i maranhao 500"
  let ?vs = "region_values i maranhao 500"
  let ?sf = "sum_list (map snd (filter (\<lambda>x. 1 \<le> fst x \<and> fst x \<le> 5) ?vw))"
  let ?sv = "sum_list (map snd (filter (\<lambda>x. 6 \<le> fst x \<and> fst x \<le> 9) ?vw))"
  let ?sa = "sum_list (map snd (filter (\<lambda>x. fst x = 12 \<or> fst x = 14) ?vw))"
  have fe: "f = ?sf * 0.25" using f forestAreaKm2_value [OF h] by simp
  have ve: "v = ?sv * 0.25" using v savannaAreaKm2_value [OF h] by simp
  have ae: "a = ?sa * 0.25" using a cropAreaKm2_value [OF h] by simp
  have sq: "(500 / 1000)\<^sup>2 = (0.25 :: real)" by (simp add: power2_eq_square)
  have b: "\<forall>x\<in>set ?vw. 0 \<le> snd x \<and> snd x \<le> 1" by (rule region_weighted_bounds)
  have n: "0 \<le> ?sf" "0 \<le> ?sv" "0 \<le> ?sa" using b by (rule weights_nonneg)+
  have "?sf + ?sv + ?sa \<le> real (length ?vw)" using b by (rule group_weights_le)
  then have le: "?sf + ?sv + ?sa \<le> real (length ?vs)" by (simp add: region_values_weighted)
  have le2: "real (length ?vs) \<le> real (length (region_pixels i maranhao 500))"
    using region_values_le_pixels [of i maranhao 500] by simp
  show ?thesis
    unfolding sq fe ve ae using n le le2 by simp
qed

text \<open>The synthetic raster: 2.5 of the 3 square kilometres of its twelve pixels.\<close>

theorem group_areas_bounded_witness:
  "forestAreaKm2 (Inr (synthetic_frame (fromYMD 2001 1 1))) = Inr 1.5
   \<and> savannaAreaKm2 (Inr (synthetic_frame (fromYMD 2001 1 1))) = Inr 0.5
   \<and> cropAreaKm2 (Inr (synthetic_frame (fromYMD 2001 1 1))) = Inr 0.5
   \<and> (0 :: real) \<le> 1.5 \<and> (0 :: real) \<le> 0.5
   \<and> (1.5 + 0.5 + 0.5 :: real)
        \<le> real (length (region_values (synthetic_frame (fromYMD 2001 1 1)) maranhao 500))
             * (500 / 1000)\<^sup>2
   \<and> length (region_values (synthetic_frame (fromYMD 2001 1 1)) maranhao 500) = 12"
proof -
  have h: "length (region_pixels (synthetic_frame (fromYMD 2001 1 1)) maranhao 500)
             \<le> 10000000000000"
    by (simp add: synthetic_region_pixels)
  have f: "forestAreaKm2 (Inr (synthetic_frame (fromYMD 2001 1 1))) = Inr 1.5"
    using forestAreaKm2_value [OF h] by (simp add: synthetic_region_weighted)
  have v: "savannaAreaKm2 (Inr (synthetic_frame (fromYMD 2001 1 1))) = Inr 0.5"
    using savannaAreaKm2_value [OF h] by (simp add: synthetic_region_weighted)
  have a: "cropAreaKm2 (Inr (synthetic_frame (fromYMD 2001 1 1))) = Inr 0.5"
    using cropAreaKm2_value [OF h] by (simp add: synthetic_region_weighted)
  show ?thesis
    using f v a group_areas_bounded [OF f v a] by (simp add: synthetic_region_values)
qed

subsection \<open>Class groups\<close>

text \<open>
  Claim C5. The masks of the program select a pixel of class code \<open>c\<close> exactly when
  \<open>1 \<le> c \<le> 5\<close> (forest), \<open>6 \<le> c \<le> 9\<close> (savanna), \<open>c = 12\<close> or \<open>c = 14\<close>
  (agriculture), and no pixel is selected by two of them.
\<close>

theorem class_groups_disjoint:
  "(band i s p = Some c \<longrightarrow>
      (selected (forest i) s p \<longleftrightarrow> 1 \<le> c \<and> c \<le> 5)
      \<and> (selected (savanna i) s p \<longleftrightarrow> 6 \<le> c \<and> c \<le> 9)
      \<and> (selected (cropland i) s p \<longleftrightarrow> c = 12 \<or> c = 14))
   \<and> \<not> (selected (forest i) s p \<and> selected (savanna i) s p)
   \<and> \<not> (selected (forest i) s p \<and> selected (cropland i) s p)
   \<and> \<not> (selected (savanna i) s p \<and> selected (cropland i) s p)"
  by (cases "band i s p") (auto simp: selected_def band_forest band_savanna band_cropland)

text \<open>A cropland pixel of the synthetic raster.\<close>

theorem class_groups_disjoint_witness:
  "band (synthetic_frame (fromYMD 2001 1 1)) 500 (- 44, - 4) = Some 12
   \<and> \<not> selected (forest (synthetic_frame (fromYMD 2001 1 1))) 500 (- 44, - 4)
   \<and> \<not> selected (savanna (synthetic_frame (fromYMD 2001 1 1))) 500 (- 44, - 4)
   \<and> selected (cropland (synthetic_frame (fromYMD 2001 1 1))) 500 (- 44, - 4)"
proof -
  have b: "band (synthetic_frame (fromYMD 2001 1 1)) 500 (- 44, - 4) = Some 12"
    by (simp add: synthetic_frame_def synthetic_pixels_def)
  show ?thesis
    using b class_groups_disjoint [of "synthetic_frame (fromYMD 2001 1 1)" 500 "(- 44, - 4)" 12]
    by simp
qed

lemma weighted_sum_removeAll_zero:
  "b p = Some (0 :: int) \<Longrightarrow>
   weighted_sum (List.map_filter (\<lambda>q. map_option (\<lambda>v. (v, w q)) (b q)) (removeAll p xs))
     = weighted_sum (List.map_filter (\<lambda>q. map_option (\<lambda>v. (v, w q)) (b q)) xs)"
  by (induction xs) (auto simp: List.map_filter_simps weighted_sum_def split: option.splits)

lemma region_pixels_removeAll:
  "region_pixels (i\<lparr>lattice := \<lambda>s. removeAll p (lattice i s)\<rparr>) g s
     = removeAll p (region_pixels i g s)"
  by (simp add: region_pixels_def removeAll_filter_not_eq conj_commute)

lemma length_removeAll_le: "length (removeAll p xs) \<le> length xs"
  by (simp add: removeAll_filter_not_eq)

lemma reduceRegion_sum_removeAll:
  assumes "band m s p = Some 0" "length (region_pixels m g s) \<le> k"
  shows "reduceRegion_sum (m\<lparr>lattice := \<lambda>s. removeAll p (lattice m s)\<rparr>) g s k
           = reduceRegion_sum m g s k"
proof -
  have "length (removeAll p (region_pixels m g s)) \<le> k"
    using assms(2) length_removeAll_le [of p "region_pixels m g s"] by linarith
  then show ?thesis
    using assms
    by (simp add: reduceRegion_sum_def region_pixels_removeAll region_weighted_def
          weighted_sum_removeAll_zero)
qed

lemma reduceRegion_sum_cong:
  "lattice m s = lattice n s \<Longrightarrow> band m s = band n s \<Longrightarrow>
   reduceRegion_sum m g s k = reduceRegion_sum n g s k"
  by (simp add: reduceRegion_sum_def region_pixels_def region_weighted_def)

lemma masks_lattice_update:
  "reduceRegion_sum (forest (i\<lparr>lattice := l\<rparr>)) g s k
     = reduceRegion_sum ((forest i)\<lparr>lattice := l\<rparr>) g s k"
  "reduceRegion_sum (savanna (i\<lparr>lattice := l\<rparr>)) g s k
     = reduceRegion_sum ((savanna i)\<lparr>lattice := l\<rparr>) g s k"
  "reduceRegion_sum (cropland (i\<lparr>lattice := l\<rparr>)) g s k
     = reduceRegion_sum ((cropland i)\<lparr>lattice := l\<rparr>) g s k"
  by (rule reduceRegion_sum_cong; simp add: lattice_masks band_masks_fun)+

text \<open>
  Claim C6. A pixel whose class code is in no group (such as 10, 11, 13, 15, 16, 17) has
  the value zero in each of the three masks, and the three areas are the same with the
  pixel as without it. The analysis prints the histogram, the forest pixel count and the
  three areas, and nothing that would collect the other codes.
\<close>

theorem unmatched_pixel_contributes_nothing:
  "band i 500 p = Some c \<Longrightarrow>
   \<not> (1 \<le> c \<and> c \<le> 5) \<Longrightarrow> \<not> (6 \<le> c \<and> c \<le> 9) \<Longrightarrow> c \<noteq> 12 \<Longrightarrow> c \<noteq> 14 \<Longrightarrow>
   length (region_pixels i maranhao 500) \<le> 10000000000000 \<Longrightarrow>
   band (forest i) 500 p = Some 0 \<and> band (savanna i) 500 p = Some 0
   \<and> band (cropland i) 500 p = Some 0
   \<and> forestAreaKm2 (Inr (i\<lparr>lattice := \<lambda>s. removeAll p (lattice i s)\<rparr>)) = forestAreaKm2 (Inr i)
   \<and> savannaAreaKm2 (Inr (i\<lparr>lattice := \<lambda>s. removeAll p (lattice i s)\<rparr>)) = savannaAreaKm2 (Inr i)
   \<and> cropAreaKm2 (Inr (i\<lparr>lattice := \<lambda>s. removeAll p (lattice i s)\<rparr>)) = cropAreaKm2 (Inr i)
   \<and> map fst (console (analyzeLandCover col y empty_session))
       = [''Year '' @ number_toString y @ '' - Land Cover Classes:'',
          ''Year '' @ number_toString y @ '' - Forest pixels:'',
          ''Year '' @ number_toString y @ '' - Forest area (km2):'',
          ''Year '' @ number_toString y @ '' - Savanna/Shrub area (km2):'',
          ''Year '' @ number_toString y @ '' - Agriculture area (km2):'']"
proof -
  assume c: "band i 500 p = Some c" "\<not> (1 \<le> c \<and> c \<le> 5)" "\<not> (6 \<le> c \<and> c \<le> 9)" "c \<noteq> 12" "c \<noteq> 14"
    and h: "length (region_pixels i maranhao 500) \<le> 10000000000000"
  have z: "band (forest i) 500 p = Some 0" "band (savanna i) 500 p = Some 0"
    "band (cropland i) 500 p = Some 0"
    using c by (simp_all add: band_forest band_savanna band_cropland)
  have l: "lattice (forest i) = lattice i" "lattice (savanna i) = lattice i"
    "lattice (cropland i) = lattice i" by (rule lattice_masks)+
  have f: "reduceRegion_sum ((forest i)\<lparr>lattice := \<lambda>s. removeAll p (lattice i s)\<rparr>) maranhao 500 10000000000000
         = reduceRegion_sum (forest i) maranhao 500 10000000000000"
    using reduceRegion_sum_removeAll [of "forest i" 500 p maranhao 10000000000000] z h
    by (simp add: l region_pixels_masks)
  have v: "reduceRegion_sum ((savanna i)\<lparr>lattice := \<lambda>s. removeAll p (lattice i s)\<rparr>) maranhao 500 10000000000000
         = reduceRegion_sum (savanna i) maranhao 500 10000000000000"
    using reduceRegion_sum_removeAll [of "savanna i" 500 p maranhao 10000000000000] z h
    by (simp add: l region_pixels_masks)
  have a: "reduceRegion_sum ((cropland i)\<lparr>lattice := \<lambda>s. removeAll p (lattice i s)\<rparr>) maranhao 500 10000000000000
         = reduceRegion_sum (cropland i) maranhao 500 10000000000000"
    using reduceRegion_sum_removeAll [of "cropland i" 500 p maranhao 10000000000000] z h
    by (simp add: l region_pixels_masks)
  show ?thesis
    using z f v a
    by (simp add: forestAreaKm2_def forestPixelCount_def savannaAreaKm2_def cropAreaKm2_def
          on_value_def and_then_def masks_lattice_update analyzeLandCover_def Let_def
          print_def empty_session_def)
qed

text \<open>The grassland pixel (class 10) of the synthetic raster.\<close>

theorem unmatched_pixel_witness:
  "band (synthetic_frame (fromYMD 2001 1 1)) 500 (- 45, - 4) = Some 10
   \<and> length (region_pixels (synthetic_frame (fromYMD 2001 1 1)) maranhao 500) \<le> 10000000000000
   \<and> band (forest (synthetic_frame (fromYMD 2001 1 1))) 500 (- 45, - 4) = Some 0
   \<and> forestAreaKm2 (Inr ((synthetic_frame (fromYMD 2001 1 1))
        \<lparr>lattice := \<lambda>s. removeAll (- 45, - 4) (lattice (synthetic_frame (fromYMD 2001 1 1)) s)\<rparr>))
       = Inr 1.5
   \<and> savannaAreaKm2 (Inr ((synthetic_frame (fromYMD 2001 1 1))
        \<lparr>lattice := \<lambda>s. removeAll (- 45, - 4) (lattice (synthetic_frame (fromYMD 2001 1 1)) s)\<rparr>))
       = Inr 0.5
   \<and> cropAreaKm2 (Inr ((synthetic_frame (fromYMD 2001 1 1))
        \<lparr>lattice := \<lambda>s. removeAll (- 45, - 4) (lattice (synthetic_frame (fromYMD 2001 1 1)) s)\<rparr>))
       = Inr 0.5"
proof -
  have b: "band (synthetic_frame (fromYMD 2001 1 1)) 500 (- 45, - 4) = Some 10"
    by (simp add: synthetic_frame_def synthetic_pixels_def)
  have h: "length (region_pixels (synthetic_frame (fromYMD 2001 1 1)) maranhao 500)
             \<le> 10000000000000"
    by (simp add: synthetic_region_pixels)
  have f: "forestAreaKm2 (Inr (synthetic_frame (fromYMD 2001 1 1))) = Inr 1.5"
    using forestAreaKm2_value [OF h] by (simp add: synthetic_region_weighted)
  have v: "savannaAreaKm2 (Inr (synthetic_frame (fromYMD 2001 1 1))) = Inr 0.5"
    using savannaAreaKm2_value [OF h] by (simp add: synthetic_region_weighted)
  have a: "cropAreaKm2 (Inr (synthetic_frame (fromYMD 2001 1 1))) = Inr 0.5"
    using cropAreaKm2_value [OF h] by (simp add: synthetic_region_weighted)
  show ?thesis
    using b h f v a
      unmatched_pixel_contributes_nothing [OF b _ _ _ _ h]
    by simp
qed

lemma map_filter_cong_set:
  "(\<And>x. x \<in> set xs \<Longrightarrow> f x = g x) \<Longrightarrow> List.map_filter f xs = List.map_filter g xs"
  by (induction xs) (auto simp: List.map_filter_simps split: option.splits)

subsection \<open>Determinism\<close>

text \<open>
  Claim C7. The histogram and the three areas are functions of the frame, the region and
  the scale, so identical inputs give identical results. More than that: they read
  nothing but the pixels that the frame has inside the region at the scale of 500 metres
  and the values there. Two frames that agree on these give the same histogram and the
  same areas, whatever their timestamps and whatever they hold elsewhere.
\<close>

theorem results_depend_on_region_pixels_only:
  "region_pixels i maranhao 500 = region_pixels j maranhao 500 \<Longrightarrow>
   (\<forall>p\<in>set (region_pixels i maranhao 500). band i 500 p = band j 500 p) \<Longrightarrow>
   histogram (Inr i) = histogram (Inr j)
   \<and> forestAreaKm2 (Inr i) = forestAreaKm2 (Inr j)
   \<and> savannaAreaKm2 (Inr i) = savannaAreaKm2 (Inr j)
   \<and> cropAreaKm2 (Inr i) = cropAreaKm2 (Inr j)"
proof -
  assume px: "region_pixels i maranhao 500 = region_pixels j maranhao 500"
    and bd: "\<forall>p\<in>set (region_pixels i maranhao 500). band i 500 p = band j 500 p"
  have "List.map_filter (\<lambda>p. map_option (\<lambda>v. (v, coverage maranhao 500 p)) (band i 500 p))
            (region_pixels i maranhao 500)
          = List.map_filter (\<lambda>p. map_option (\<lambda>v. (v, coverage maranhao 500 p)) (band j 500 p))
              (region_pixels i maranhao 500)"
    using bd by (intro map_filter_cong_set) simp
  then have vs: "region_weighted i maranhao 500 = region_weighted j maranhao 500"
    using px by (simp add: region_weighted_def)
  show ?thesis
    using px vs
    by (simp add: histogram_def forestAreaKm2_def forestPixelCount_def savannaAreaKm2_def
          cropAreaKm2_def on_value_def and_then_def reduceRegion_frequencyHistogram_def
          reduceRegion_sum_def region_pixels_masks region_weighted_forest
          region_weighted_savanna region_weighted_cropland)
qed


text \<open>
  The frame of 2001 and the clipped frame of 2003 differ in their timestamps and outside
  the region, and have the same results.
\<close>

theorem results_depend_on_region_pixels_only_witness:
  "region_pixels (synthetic_frame (fromYMD 2001 1 1)) maranhao 500
     = region_pixels (clip_img (synthetic_frame (fromYMD 2003 1 1)) maranhao) maranhao 500
   \<and> map (band (synthetic_frame (fromYMD 2001 1 1)) 500)
         (region_pixels (synthetic_frame (fromYMD 2001 1 1)) maranhao 500)
       = map (band (clip_img (synthetic_frame (fromYMD 2003 1 1)) maranhao) 500)
           (region_pixels (synthetic_frame (fromYMD 2001 1 1)) maranhao 500)
   \<and> time_start (synthetic_frame (fromYMD 2001 1 1))
         \<noteq> time_start (clip_img (synthetic_frame (fromYMD 2003 1 1)) maranhao)
   \<and> band (synthetic_frame (fromYMD 2001 1 1)) 500 (- 50, - 6)
         \<noteq> band (clip_img (synthetic_frame (fromYMD 2003 1 1)) maranhao) 500 (- 50, - 6)
   \<and> histogram (Inr (synthetic_frame (fromYMD 2001 1 1)))
         = histogram (Inr (clip_img (synthetic_frame (fromYMD 2003 1 1)) maranhao))
   \<and> forestAreaKm2 (Inr (synthetic_frame (fromYMD 2001 1 1)))
         = forestAreaKm2 (Inr (clip_img (synthetic_frame (fromYMD 2003 1 1)) maranhao))
   \<and> savannaAreaKm2 (Inr (synthetic_frame (fromYMD 2001 1 1)))
         = savannaAreaKm2 (Inr (clip_img (synthetic_frame (fromYMD 2003 1 1)) maranhao))
   \<and> cropAreaKm2 (Inr (synthetic_frame (fromYMD 2001 1 1)))
         = cropAreaKm2 (Inr (clip_img (synthetic_frame (fromYMD 2003 1 1)) maranhao))"
proof -
  have px: "region_pixels (synthetic_frame (fromYMD 2001 1 1)) maranhao 500
     = region_pixels (clip_img (synthetic_frame (fromYMD 2003 1 1)) maranhao) maranhao 500"
    by (simp add: region_pixels_def clip_img_def synthetic_frame_def)
  have bd: "\<forall>p\<in>set (region_pixels (synthetic_frame (fromYMD 2001 1 1)) maranhao 500).
         band (synthetic_frame (fromYMD 2001 1 1)) 500 p
           = band (clip_img (synthetic_frame (fromYMD 2003 1 1)) maranhao) 500 p"
    by (simp add: synthetic_region_pixels)
       (simp add: clip_img_def synthetic_frame_def inside_def maranhao_def Rectangle_def)
  have ts: "time_start (synthetic_frame (fromYMD 2001 1 1))
         \<noteq> time_start (clip_img (synthetic_frame (fromYMD 2003 1 1)) maranhao)"
    by (simp add: clip_img_def synthetic_frame_def date_millis_def fromYMD_def
          days_before_year_def days_before_month_def)
  have out: "band (synthetic_frame (fromYMD 2001 1 1)) 500 (- 50, - 6)
         \<noteq> band (clip_img (synthetic_frame (fromYMD 2003 1 1)) maranhao) 500 (- 50, - 6)"
    by (simp add: clip_img_def synthetic_frame_def synthetic_pixels_def inside_def maranhao_def
          Rectangle_def)
  show ?thesis
    using px bd ts out results_depend_on_region_pixels_only [OF px bd] by simp
qed

subsection \<open>The calendar year of a timestamp\<close>

lemma days_before_year_decomp:
  fixes a b c e :: int
  assumes "0 \<le> b" "b \<le> 3" "0 \<le> c" "c \<le> 24" "0 \<le> e" "e \<le> 3"
  shows "days_before_year (400 * a + 100 * b + 4 * c + e + 1)
           = 146097 * a + 36524 * b + 1461 * c + 365 * e - 719162"
proof -
  have q4: "(400 * a + 100 * b + 4 * c + e) div 4 = 100 * a + 25 * b + c"
  proof -
    have "400 * a + 100 * b + 4 * c + e = e + (100 * a + 25 * b + c) * 4" by simp
    moreover have "e div 4 = 0" using assms by simp
    ultimately show ?thesis by simp
  qed
  have q100: "(400 * a + 100 * b + 4 * c + e) div 100 = 4 * a + b"
  proof -
    have "400 * a + 100 * b + 4 * c + e = (4 * c + e) + (4 * a + b) * 100" by simp
    moreover have "(4 * c + e) div 100 = 0" using assms by simp
    ultimately show ?thesis by simp
  qed
  have q400: "(400 * a + 100 * b + 4 * c + e) div 400 = a"
  proof -
    have "400 * a + 100 * b + 4 * c + e = (100 * b + 4 * c + e) + a * 400" by simp
    moreover have "(100 * b + 4 * c + e) div 400 = 0" using assms by simp
    ultimately show ?thesis by simp
  qed
  show ?thesis
    unfolding days_before_year_def using q4 q100 q400 by simp
qed

lemma year_of_days_bounds:
  "days_before_year (year_of_days d) \<le> d \<and> d < days_before_year (year_of_days d + 1)"
proof -
  define n where "n = d + 719162"
  define a where "a = n div 146097"
  define r where "r = n mod 146097"
  define b where "b = r div 36524"
  define r1 where "r1 = r mod 36524"
  define c where "c = r1 div 1461"
  define r2 where "r2 = r1 mod 1461"
  define e where "e = r2 div 365"
  define r3 where "r3 = r2 mod 365"
  have n: "n = 146097 * a + r" and r: "0 \<le> r" "r < 146097"
    by (simp_all add: a_def r_def)
  have r': "r = 36524 * b + r1" and r1: "0 \<le> r1" "r1 < 36524"
    by (simp_all add: b_def r1_def)
  have r1': "r1 = 1461 * c + r2" and r2: "0 \<le> r2" "r2 < 1461"
    by (simp_all add: c_def r2_def)
  have r2': "r2 = 365 * e + r3" and r3: "0 \<le> r3" "r3 < 365"
    by (simp_all add: e_def r3_def)
  have b: "0 \<le> b" "b \<le> 4" using r r' r1 by linarith+
  have c: "0 \<le> c" "c \<le> 24" using r1 r1' r2 by linarith+
  have e: "0 \<le> e" "e \<le> 4" using r2 r2' r3 by linarith+
  have d: "d = 146097 * a + 36524 * b + 1461 * c + 365 * e + r3 - 719162"
    using n r' r1' r2' by (simp add: n_def)
  have y: "year_of_days d =
      (if e = 4 \<or> b = 4 then 400 * a + 100 * b + 4 * c + e else 400 * a + 100 * b + 4 * c + e + 1)"
    by (simp add: year_of_days_def Let_def n_def a_def r_def b_def r1_def c_def r2_def e_def)
  consider (last400) "b = 4"
    | (last4) "b \<le> 3" "e = 4"
    | (inner) "b \<le> 3" "e \<le> 2"
    | (e3) "b \<le> 3" "e = 3" "c \<le> 23"
    | (c24) "b \<le> 2" "e = 3" "c = 24"
    | (b3) "b = 3" "e = 3" "c = 24"
    using b e c by linarith
  then show ?thesis
  proof cases
    case last400
    then have z: "r1 = 0" "c = 0" "e = 0" "r3 = 0" using r r' r1 r1' r2 r2' r3 c e by linarith+
    have "year_of_days d = 400 * a + 100 * 3 + 4 * 24 + 3 + 1" using y last400 z by simp
    moreover have "year_of_days d + 1 = 400 * (a + 1) + 100 * 0 + 4 * 0 + 0 + 1"
      using y last400 z by simp
    ultimately show ?thesis
      using days_before_year_decomp [of 3 24 3 a] days_before_year_decomp [of 0 0 0 "a + 1"]
        d last400 z by simp
  next
    case last4
    then have z: "r3 = 0" "c \<le> 23" using r1 r1' r2 r2' r3 c by linarith+
    have "year_of_days d = 400 * a + 100 * b + 4 * c + 3 + 1" using y last4 by simp
    moreover have "year_of_days d + 1 = 400 * a + 100 * b + 4 * (c + 1) + 0 + 1"
      using y last4 by simp
    ultimately show ?thesis
      using days_before_year_decomp [of b c 3 a] days_before_year_decomp [of b "c + 1" 0 a]
        d last4 z b c by simp
  next
    case inner
    have "year_of_days d = 400 * a + 100 * b + 4 * c + e + 1" using y inner by simp
    moreover have "year_of_days d + 1 = 400 * a + 100 * b + 4 * c + (e + 1) + 1"
      using y inner by simp
    ultimately show ?thesis
      using days_before_year_decomp [of b c e a] days_before_year_decomp [of b c "e + 1" a]
        d inner b c e r3 by simp
  next
    case e3
    have "year_of_days d = 400 * a + 100 * b + 4 * c + e + 1" using y e3 by simp
    moreover have "year_of_days d + 1 = 400 * a + 100 * b + 4 * (c + 1) + 0 + 1"
      using y e3 by simp
    ultimately show ?thesis
      using days_before_year_decomp [of b c e a] days_before_year_decomp [of b "c + 1" 0 a]
        d e3 b c e r3 by simp
  next
    case c24
    have "year_of_days d = 400 * a + 100 * b + 4 * c + e + 1" using y c24 by simp
    moreover have "year_of_days d + 1 = 400 * a + 100 * (b + 1) + 4 * 0 + 0 + 1"
      using y c24 by simp
    ultimately show ?thesis
      using days_before_year_decomp [of b c e a] days_before_year_decomp [of "b + 1" 0 0 a]
        d c24 b r1 r1' r2' r3 by simp
  next
    case b3
    have "year_of_days d = 400 * a + 100 * b + 4 * c + e + 1" using y b3 by simp
    moreover have "year_of_days d + 1 = 400 * (a + 1) + 100 * 0 + 4 * 0 + 0 + 1"
      using y b3 by simp
    ultimately show ?thesis
      using days_before_year_decomp [of b c e a] days_before_year_decomp [of 0 0 0 "a + 1"]
        d b3 r1 r1' r2' r3 by simp
  qed
qed

lemma days_before_year_step: "days_before_year y < days_before_year (y + 1)"
proof -
  have "(y - 1) div 4 \<le> y div 4" by (rule zdiv_mono1) simp_all
  moreover have "y div 100 \<le> (y - 1) div 100 + 1"
  proof -
    have "y div 100 \<le> (y - 1 + 100) div 100" by (rule zdiv_mono1) simp_all
    then show ?thesis by simp
  qed
  moreover have "(y - 1) div 400 \<le> y div 400" by (rule zdiv_mono1) simp_all
  ultimately show ?thesis unfolding days_before_year_def by simp
qed

lemma days_before_year_mono: "y \<le> z \<Longrightarrow> days_before_year y \<le> days_before_year z"
proof (induction z rule: int_ge_induct)
  case base
  show ?case by simp
next
  case (step i)
  then show ?case using days_before_year_step [of i] by simp
qed

lemma year_of_days_iff:
  "year_of_days d = y \<longleftrightarrow> days_before_year y \<le> d \<and> d < days_before_year (y + 1)"
proof
  assume "year_of_days d = y"
  then show "days_before_year y \<le> d \<and> d < days_before_year (y + 1)"
    using year_of_days_bounds [of d] by simp
next
  assume h: "days_before_year y \<le> d \<and> d < days_before_year (y + 1)"
  have "\<not> year_of_days d < y"
  proof
    assume "year_of_days d < y"
    then have "days_before_year (year_of_days d + 1) \<le> days_before_year y"
      by (intro days_before_year_mono) simp
    then show False using h year_of_days_bounds [of d] by linarith
  qed
  moreover have "\<not> y < year_of_days d"
  proof
    assume "y < year_of_days d"
    then have "days_before_year (y + 1) \<le> days_before_year (year_of_days d)"
      by (intro days_before_year_mono) simp
    then show False using h year_of_days_bounds [of d] by linarith
  qed
  ultimately show "year_of_days d = y" by simp
qed

lemma year_of_millis_iff:
  "year_of_millis t = y \<longleftrightarrow>
     days_before_year y * 86400000 \<le> t \<and> t < days_before_year (y + 1) * 86400000"
proof -
  define q where "q = t div 86400000"
  define r where "r = t mod 86400000"
  have t: "t = 86400000 * q + r" and r: "0 \<le> r" "r < 86400000"
    by (simp_all add: q_def r_def)
  have "days_before_year y \<le> q \<longleftrightarrow> days_before_year y * 86400000 \<le> t"
    using t r by linarith
  moreover have "q < days_before_year (y + 1) \<longleftrightarrow> t < days_before_year (y + 1) * 86400000"
    using t r by linarith
  ultimately show ?thesis
    by (simp add: year_of_millis_def year_of_days_iff q_def)
qed

lemma date_millis_first_of_year:
  "date_millis (fromYMD y 1 1) = days_before_year y * 86400000"
  by (simp add: date_millis_def fromYMD_def days_before_month_def)

lemma advance_first_of_year: "advance_year 1 (fromYMD y 1 1) = fromYMD (y + 1) 1 1"
  by (simp add: advance_year_def fromYMD_def days_in_month_def)

lemma filterDate_year:
  "filterDate (fromYMD y 1 1) (advance_year 1 (fromYMD y 1 1)) c = filter_calendarRange y y c"
proof -
  have "(y \<le> year_of_millis t \<and> year_of_millis t \<le> y) \<longleftrightarrow>
        (days_before_year y * 86400000 \<le> t \<and> t < days_before_year (y + 1) * 86400000)" for t
    using year_of_millis_iff [of t y] by auto
  then show ?thesis
    unfolding filterDate_def filter_calendarRange_def advance_first_of_year
      date_millis_first_of_year
    by simp
qed

text \<open>
  Claim C10. For every year and every collection, the filter of the analysis path,
  \<^verbatim>\<open>calendarRange(year, year, 'year')\<close>, and the filter of the export path, the dates
  from the first of January of the year up to, and without, the first of January of the
  next, keep the same frames in the same order; so both paths take the same first frame
  and clip the same image.
\<close>

theorem year_selection_methods_agree:
  "filter_calendarRange y y c = filterDate (fromYMD y 1 1) (advance_year 1 (fromYMD y 1 1)) c
   \<and> first_img (filter_calendarRange y y c)
       = first_img (filterDate (fromYMD y 1 1) (advance_year 1 (fromYMD y 1 1)) c)
   \<and> year_image c y = export_image c y"
  unfolding year_image_def export_image_def Let_def filterDate_year by simp

subsection \<open>The date filter\<close>

lemma end_date_millis:
  "date_millis (fromYMD 2001 1 1) = 978307200000"
  "date_millis (fromYMD 2024 12 31) = 1735603200000"
  by (simp_all add: date_millis_def fromYMD_def days_before_year_def days_before_month_def
        days_in_month_def is_leap_year_def upt_rec)

lemma mcd12_mem:
  "f \<in> set (mcd12 catalog) \<longleftrightarrow>
     f \<in> set catalog \<and> 978307200000 \<le> time_start f \<and> time_start f < 1735603200000"
  unfolding mcd12_def filterDate_def end_date_millis by auto

text \<open>
  Claim C9 says that the date filter keeps an inclusive period, so that a frame acquired
  exactly on the end date, 2024-12-31, is in the filtered collection. It is not: the
  collection of the script drops that frame.
\<close>

theorem end_date_frame_excluded:
  "time_start (synthetic_frame (fromYMD 2024 12 31)) = date_millis (fromYMD 2024 12 31)
   \<and> mcd12 [synthetic_frame (fromYMD 2024 12 31)] = []"
  unfolding mcd12_def filterDate_def by (simp add: synthetic_frame_def)

text \<open>
  Claim C9, amended. The date filter keeps the half-open period from the start date,
  included, to the end date, excluded: a frame is kept exactly when its timestamp is at
  or after the start and before the end, and a frame acquired exactly on the end date is
  dropped. The collection of the script holds the frames of the catalog from
  2001-01-01T00:00 (978307200000 ms) up to, and without, 2024-12-31T00:00
  (1735603200000 ms). The export path relies on this when it filters a year from its
  first of January to the first of January of the next.
\<close>

theorem filterDate_half_open:
  "(f \<in> set (filterDate start end c) \<longleftrightarrow>
      f \<in> set c \<and> date_millis start \<le> time_start f \<and> time_start f < date_millis end)
   \<and> (time_start f = date_millis end \<longrightarrow> f \<notin> set (filterDate start end c))
   \<and> (f \<in> set (mcd12 catalog) \<longleftrightarrow>
        f \<in> set catalog \<and> 978307200000 \<le> time_start f \<and> time_start f < 1735603200000)"
  using mcd12_mem [of f catalog] by (auto simp: filterDate_def)

text \<open>The frame of the end date is dropped, the frame of the start date is kept.\<close>

theorem filterDate_half_open_witness:
  "time_start (synthetic_frame (fromYMD 2024 12 31)) = date_millis (fromYMD 2024 12 31)
   \<and> synthetic_frame (fromYMD 2024 12 31)
        \<notin> set (filterDate (fromYMD 2001 1 1) (fromYMD 2024 12 31)
                 [synthetic_frame (fromYMD 2024 12 31)])
   \<and> synthetic_frame (fromYMD 2001 1 1) \<in> set (mcd12 synthetic_catalog)"
proof -
  have t: "time_start (synthetic_frame (fromYMD 2024 12 31)) = date_millis (fromYMD 2024 12 31)"
    by (simp add: synthetic_frame_def)
  have m: "synthetic_frame (fromYMD 2001 1 1) \<in> set synthetic_catalog"
    by (simp add: synthetic_catalog_def)
  have s: "time_start (synthetic_frame (fromYMD 2001 1 1)) = 978307200000"
    unfolding synthetic_frame_def end_date_millis by simp
  show ?thesis
    using t m s
      filterDate_half_open [of "synthetic_frame (fromYMD 2024 12 31)" "fromYMD 2001 1 1"
        "fromYMD 2024 12 31" "[synthetic_frame (fromYMD 2024 12 31)]" "[]"]
      filterDate_half_open [of "synthetic_frame (fromYMD 2001 1 1)" "fromYMD 2001 1 1"
        "fromYMD 2024 12 31" "[]" synthetic_catalog]
    by simp
qed

subsection \<open>A year without a frame\<close>

lemma synthetic_years:
  "year_of_millis (time_start (synthetic_frame (fromYMD 2001 1 1))) = 2001"
  "year_of_millis (time_start (synthetic_frame (fromYMD 2003 1 1))) = 2003"
  by (simp_all add: synthetic_frame_def date_millis_def fromYMD_def days_before_year_def
        days_before_month_def year_of_millis_def year_of_days_def)

lemma mcd12_synthetic_catalog: "mcd12 synthetic_catalog = synthetic_catalog"
  unfolding mcd12_def filterDate_def end_date_millis synthetic_catalog_def
  by (simp add: synthetic_frame_def date_millis_def fromYMD_def days_before_year_def
        days_before_month_def)

lemma no_frame_of_year:
  "(\<forall>f\<in>set c. year_of_millis (time_start f) \<noteq> y) \<longleftrightarrow> filter_calendarRange y y c = []"
  by (auto simp: filter_calendarRange_def filter_empty_conv)

lemma first_img_None: "first_img c = None \<longleftrightarrow> c = []"
  by (cases c) (simp_all add: first_img_def)

lemma first_img_Some: "first_img c = Some f \<Longrightarrow> f \<in> set c"
  by (cases c) (simp_all add: first_img_def)

lemma analyzeLandCover_error:
  "year_image c y = Inl e \<Longrightarrow>
   map snd (console (analyzeLandCover c y empty_session)) = [Inl e, Inl e, Inl e, Inl e, Inl e]"
  by (simp add: analyzeLandCover_def Let_def print_def empty_session_def histogram_def
        forestPixelCount_def forestAreaKm2_def savannaAreaKm2_def cropAreaKm2_def on_value_def
        and_then_def)

lemma synthetic_2002_missing: "filter_calendarRange 2002 2002 synthetic_catalog = []"
  unfolding no_frame_of_year [symmetric] synthetic_catalog_def
  by (simp add: synthetic_years del: One_nat_def)

text \<open>
  Claim C1 says that a year with no frame resolves to an explicit Missing outcome and not
  to a failure in a later access. In the program it is the later access that fails: for
  2002, which the synthetic catalog lacks, the filter is empty, the clipped image is the
  error of \<^verbatim>\<open>Image.clip\<close> on its missing input, and each of the five values printed
  for the year is that error.
\<close>

theorem missing_year_fails_in_clip:
  "filter_calendarRange 2002 2002 (mcd12 synthetic_catalog) = []
   \<and> year_image (mcd12 synthetic_catalog) 2002 = Inl (RequiredParameter ''Image.clip'' ''input'')
   \<and> map snd (console (analyzeLandCover (mcd12 synthetic_catalog) 2002 empty_session))
       = [Inl (RequiredParameter ''Image.clip'' ''input''),
          Inl (RequiredParameter ''Image.clip'' ''input''),
          Inl (RequiredParameter ''Image.clip'' ''input''),
          Inl (RequiredParameter ''Image.clip'' ''input''),
          Inl (RequiredParameter ''Image.clip'' ''input'')]"
proof -
  have y: "year_image synthetic_catalog 2002 = Inl (RequiredParameter ''Image.clip'' ''input'')"
    by (simp add: year_image_def synthetic_2002_missing first_img_def clip_def)
  show ?thesis
    unfolding mcd12_synthetic_catalog
    using y analyzeLandCover_error [OF y] by (simp add: synthetic_2002_missing)
qed

text \<open>
  Claim C1, amended. For every requested year \<open>y\<close>, the first frame of the collection
  filtered to the calendar year \<open>y\<close> is a frame of the collection whose year is \<open>y\<close>,
  and the image of the year is that frame clipped to the region; or it is null, exactly
  when no frame of the collection is in the year. The program has no Missing outcome:
  the null goes to \<^verbatim>\<open>clip\<close>, whose evaluation fails for its missing input, and this
  error is what every value printed for the year shows.
\<close>

theorem year_image_found_or_clip_error:
  "(first_img (filter_calendarRange y y c) = Some f \<longrightarrow>
      f \<in> set c \<and> year_of_millis (time_start f) = y
      \<and> year_image c y = Inr (clip_img f maranhao))
   \<and> (first_img (filter_calendarRange y y c) = None
        \<longleftrightarrow> (\<forall>f\<in>set c. year_of_millis (time_start f) \<noteq> y))
   \<and> (first_img (filter_calendarRange y y c) = None \<longrightarrow>
        year_image c y = Inl (RequiredParameter ''Image.clip'' ''input'')
        \<and> map snd (console (analyzeLandCover c y empty_session))
            = [Inl (RequiredParameter ''Image.clip'' ''input''),
               Inl (RequiredParameter ''Image.clip'' ''input''),
               Inl (RequiredParameter ''Image.clip'' ''input''),
               Inl (RequiredParameter ''Image.clip'' ''input''),
               Inl (RequiredParameter ''Image.clip'' ''input'')])"
proof (intro conjI impI)
  assume s: "first_img (filter_calendarRange y y c) = Some f"
  then have m: "f \<in> set (filter_calendarRange y y c)" by (rule first_img_Some)
  then show "f \<in> set c" by (simp add: filter_calendarRange_def)
  show "year_of_millis (time_start f) = y" using m by (simp add: filter_calendarRange_def)
  show "year_image c y = Inr (clip_img f maranhao)" using s by (simp add: year_image_def clip_def)
next
  show "first_img (filter_calendarRange y y c) = None
          \<longleftrightarrow> (\<forall>f\<in>set c. year_of_millis (time_start f) \<noteq> y)"
    by (simp only: first_img_None no_frame_of_year)
next
  assume n: "first_img (filter_calendarRange y y c) = None"
  then show e: "year_image c y = Inl (RequiredParameter ''Image.clip'' ''input'')"
    by (simp add: year_image_def clip_def)
  show "map snd (console (analyzeLandCover c y empty_session))
            = [Inl (RequiredParameter ''Image.clip'' ''input''),
               Inl (RequiredParameter ''Image.clip'' ''input''),
               Inl (RequiredParameter ''Image.clip'' ''input''),
               Inl (RequiredParameter ''Image.clip'' ''input''),
               Inl (RequiredParameter ''Image.clip'' ''input'')]"
    using e by (rule analyzeLandCover_error)
qed

text \<open>The synthetic catalog: 2003 is found, 2002 is not.\<close>

theorem year_image_witness:
  "first_img (filter_calendarRange 2003 2003 synthetic_catalog)
     = Some (synthetic_frame (fromYMD 2003 1 1))
   \<and> year_of_millis (time_start (synthetic_frame (fromYMD 2003 1 1))) = 2003
   \<and> year_image synthetic_catalog 2003 = Inr (clip_img (synthetic_frame (fromYMD 2003 1 1)) maranhao)
   \<and> first_img (filter_calendarRange 2002 2002 synthetic_catalog) = None
   \<and> year_image synthetic_catalog 2002 = Inl (RequiredParameter ''Image.clip'' ''input'')"
proof -
  have a: "first_img (filter_calendarRange 2003 2003 synthetic_catalog)
     = Some (synthetic_frame (fromYMD 2003 1 1))"
    unfolding filter_calendarRange_def synthetic_catalog_def first_img_def
    by (simp add: synthetic_years del: One_nat_def)
  have b: "first_img (filter_calendarRange 2002 2002 synthetic_catalog) = None"
    by (simp add: synthetic_2002_missing first_img_def)
  show ?thesis
    using a b
      year_image_found_or_clip_error [of 2003 synthetic_catalog "synthetic_frame (fromYMD 2003 1 1)"]
      year_image_found_or_clip_error [of 2002 synthetic_catalog "synthetic_frame (fromYMD 2003 1 1)"]
    by simp
qed

lemma analyzeLandCover_session:
  "console (analyzeLandCover c y s) = console s @ console (analyzeLandCover c y empty_session)"
  "tasks (analyzeLandCover c y s) = tasks s"
  by (simp_all add: analyzeLandCover_def Let_def print_def empty_session_def)

lemma exportYear_session:
  "tasks (exportYear c y s) = tasks s @ tasks (exportYear c y empty_session)"
  "console (exportYear c y s) = console s"
  by (simp_all add: exportYear_def toDrive_def empty_session_def)

lemma forEach_analyzeLandCover:
  "console (forEach (analyzeLandCover c) ys s)
     = console s @ concat (map (\<lambda>y. console (analyzeLandCover c y empty_session)) ys)
   \<and> tasks (forEach (analyzeLandCover c) ys s) = tasks s"
proof (induction ys arbitrary: s)
  case Nil
  show ?case by simp
next
  case (Cons y ys)
  show ?case
    using Cons [of "analyzeLandCover c y s"] analyzeLandCover_session [of c y s] by simp
qed

lemma forEach_exportYear:
  "tasks (forEach (exportYear c) ys s)
     = tasks s @ concat (map (\<lambda>y. tasks (exportYear c y empty_session)) ys)
   \<and> console (forEach (exportYear c) ys s) = console s"
proof (induction ys arbitrary: s)
  case Nil
  show ?case by simp
next
  case (Cons y ys)
  show ?case
    using Cons [of "exportYear c y s"] exportYear_session [of c y s] by simp
qed

lemma export_image_missing:
  "filter_calendarRange y y c = [] \<Longrightarrow>
   export_image c y = Inl (RequiredParameter ''Image.clip'' ''input'')"
  unfolding export_image_def Let_def filterDate_year by (simp add: first_img_def clip_def)

lemma export_task_image:
  "map task_image (tasks (exportYear c y empty_session)) = [export_image c y]"
  "map description (tasks (exportYear c y empty_session)) = [''MCD12Q1_Maranhao_'' @ number_toString y]"
  by (simp_all add: exportYear_def toDrive_def empty_session_def)

text \<open>
  Claim C2 says that a year with no frame is caught at the boundary of the year and
  recorded as skipped or failed. The program records no such outcome: in a batch over
  2001, 2002 and 2003 on the synthetic catalog an export task is created for 2002 as
  for the other years, its image being the error of \<^verbatim>\<open>Image.clip\<close>, and the analysis
  prints its five values for each of the three years.
\<close>

theorem missing_year_export_not_skipped:
  "map description
      (tasks (forEach (exportYear (mcd12 synthetic_catalog)) [2001, 2002, 2003] empty_session))
     = [''MCD12Q1_Maranhao_2001'', ''MCD12Q1_Maranhao_2002'', ''MCD12Q1_Maranhao_2003'']
   \<and> map task_image (tasks (exportYear (mcd12 synthetic_catalog) 2002 empty_session))
       = [Inl (RequiredParameter ''Image.clip'' ''input'')]
   \<and> length (console
        (forEach (analyzeLandCover (mcd12 synthetic_catalog)) [2001, 2002, 2003] empty_session))
       = 15"
proof -
  have t: "tasks empty_session = []" "console empty_session = []" by (simp_all add: empty_session_def)
  have l: "length (console (analyzeLandCover c y empty_session)) = 5" for c y
    by (simp add: analyzeLandCover_def Let_def print_def empty_session_def)
  show ?thesis
    unfolding mcd12_synthetic_catalog
    by (simp add: forEach_exportYear forEach_analyzeLandCover t l export_task_image
          number_toString_2001_2003 export_image_missing synthetic_2002_missing
          del: forEach.simps)
qed

text \<open>
  Claim C2, amended. In a batch run over a list of years nothing is caught and no
  skipped or failed outcome is recorded. Every year of the list adds to the console the
  five values that its analysis alone prints, and to the tasks the one export task that
  its export alone creates, in the order of the list and whatever the other years give;
  so no year stops the run. For a year with no frame the five values are the error of
  \<^verbatim>\<open>Image.clip\<close> and the export task is still created, with that error for its image.
\<close>

theorem batch_processes_every_year:
  "console (forEach (analyzeLandCover c) ys s)
     = console s @ concat (map (\<lambda>y. console (analyzeLandCover c y empty_session)) ys)
   \<and> tasks (forEach (analyzeLandCover c) ys s) = tasks s
   \<and> tasks (forEach (exportYear c) ys s)
       = tasks s @ concat (map (\<lambda>y. tasks (exportYear c y empty_session)) ys)
   \<and> console (forEach (exportYear c) ys s) = console s
   \<and> length (console (analyzeLandCover c y empty_session)) = 5
   \<and> length (tasks (exportYear c y empty_session)) = 1
   \<and> ((\<forall>f\<in>set c. year_of_millis (time_start f) \<noteq> y) \<longrightarrow>
        map snd (console (analyzeLandCover c y empty_session))
          = [Inl (RequiredParameter ''Image.clip'' ''input''),
             Inl (RequiredParameter ''Image.clip'' ''input''),
             Inl (RequiredParameter ''Image.clip'' ''input''),
             Inl (RequiredParameter ''Image.clip'' ''input''),
             Inl (RequiredParameter ''Image.clip'' ''input'')]
        \<and> map task_image (tasks (exportYear c y empty_session))
          = [Inl (RequiredParameter ''Image.clip'' ''input'')])"
proof -
  have l: "length (console (analyzeLandCover c y empty_session)) = 5"
    by (simp add: analyzeLandCover_def Let_def print_def empty_session_def)
  have k: "length (tasks (exportYear c y empty_session)) = 1"
    by (simp add: exportYear_def toDrive_def empty_session_def)
  have m: "map snd (console (analyzeLandCover c y empty_session))
          = [Inl (RequiredParameter ''Image.clip'' ''input''),
             Inl (RequiredParameter ''Image.clip'' ''input''),
             Inl (RequiredParameter ''Image.clip'' ''input''),
             Inl (RequiredParameter ''Image.clip'' ''input''),
             Inl (RequiredParameter ''Image.clip'' ''input'')]
        \<and> map task_image (tasks (exportYear c y empty_session))
          = [Inl (RequiredParameter ''Image.clip'' ''input'')]"
    if "\<forall>f\<in>set c. year_of_millis (time_start f) \<noteq> y"
  proof -
    have e: "filter_calendarRange y y c = []" using that by (simp only: no_frame_of_year)
    then have "year_image c y = Inl (RequiredParameter ''Image.clip'' ''input'')"
      by (simp add: year_image_def first_img_def clip_def)
    then show ?thesis
      using analyzeLandCover_error export_image_missing [OF e] export_task_image(1) [of c y]
      by simp
  qed
  show ?thesis
    using forEach_analyzeLandCover [of c ys s] forEach_exportYear [of c ys s] l k m by blast
qed

text \<open>The batch over 2001, 2002 and 2003 on the synthetic catalog.\<close>

theorem batch_processes_every_year_witness:
  "length (console (forEach (analyzeLandCover synthetic_catalog) [2001, 2002, 2003] empty_session))
     = 15
   \<and> length (tasks (forEach (exportYear synthetic_catalog) [2001, 2002, 2003] empty_session)) = 3
   \<and> filter_calendarRange 2002 2002 synthetic_catalog = []
   \<and> map task_image (tasks (exportYear synthetic_catalog 2002 empty_session))
       = [Inl (RequiredParameter ''Image.clip'' ''input'')]"
proof -
  have n: "\<forall>f\<in>set synthetic_catalog. year_of_millis (time_start f) \<noteq> 2002"
    by (simp only: no_frame_of_year synthetic_2002_missing)
  have t: "tasks empty_session = []" "console empty_session = []" by (simp_all add: empty_session_def)
  show ?thesis
    using n t synthetic_2002_missing
      batch_processes_every_year [of synthetic_catalog "[2001, 2002, 2003]" empty_session 2001]
      batch_processes_every_year [of synthetic_catalog "[2001, 2002, 2003]" empty_session 2002]
      batch_processes_every_year [of synthetic_catalog "[2001, 2002, 2003]" empty_session 2003]
    by (simp del: forEach.simps)
qed

end
